theory Spec2Isabelle
  imports Complex_Main
begin

section \<open>Numbers and the outcomes of an evaluation\<close>

text \<open>
  The relation functions of \<^verbatim>\<open>beam_model.py\<close> compute on Python floats. They are
  embedded over the reals: every arithmetic operation is exact, and rounding, overflow
  and underflow of binary64 are outside the embedding (the section on binary64
  evaluation below is the one place where rounding is written out). So two outcomes of
  the float computation have no counterpart here: the \<^verbatim>\<open>OverflowError\<close> that \<^verbatim>\<open>L**3\<close> raises
  when it overflows, and the \<^verbatim>\<open>ZeroDivisionError\<close> of a denominator that is not zero as a
  real number but underflows or cancels to \<^verbatim>\<open>0.0\<close>. What is kept is every way an exact
  evaluation can end without a real number: a division by zero raises
  \<^verbatim>\<open>ZeroDivisionError\<close>, \<^verbatim>\<open>np.sqrt\<close> of a negative number is \<^verbatim>\<open>nan\<close>, a negative float
  raised to a fractional power is a complex number, and a call with the wrong number of
  arguments raises \<^verbatim>\<open>TypeError\<close>.
\<close>

datatype error = ZeroDivisionError | NanResult | ComplexResult | TypeError

type_synonym outcome = "error + real"

definition py_div :: "real \<Rightarrow> real \<Rightarrow> outcome" where
  "py_div a b = (if b = 0 then Inl ZeroDivisionError else Inr (a / b))"

text \<open>Sequencing: an exception raised by a subexpression ends the evaluation.\<close>

definition and_then :: "'e + 'a \<Rightarrow> ('a \<Rightarrow> 'e + 'b) \<Rightarrow> 'e + 'b" where
  "and_then r f = (case r of Inl e \<Rightarrow> Inl e | Inr v \<Rightarrow> f v)"

section \<open>The relation functions of \<^verbatim>\<open>create_beam_model\<close>\<close>

subsection \<open>Material and geometry helpers (E, V, G and R, I, A)\<close>

definition shear_modulus_from_elastic_poisson :: "real \<Rightarrow> real \<Rightarrow> outcome" where
  "shear_modulus_from_elastic_poisson E V = py_div E (2 * (1 + V))"

definition elastic_modulus_from_shear_poisson :: "real \<Rightarrow> real \<Rightarrow> outcome" where
  "elastic_modulus_from_shear_poisson G V = Inr (2 * G * (1 + V))"

definition poisson_from_elastic_shear :: "real \<Rightarrow> real \<Rightarrow> outcome" where
  "poisson_from_elastic_shear E G = and_then (py_div E (2 * G)) (\<lambda>q. Inr (q - 1))"

definition area_from_radius :: "real \<Rightarrow> outcome" where
  "area_from_radius radius = Inr (pi * radius ^ 2)"

definition radius_from_area :: "real \<Rightarrow> outcome" where
  "radius_from_area A = (if A / pi < 0 then Inl NanResult else Inr (sqrt (A / pi)))"

definition moment_of_inertia_from_radius :: "real \<Rightarrow> outcome" where
  "moment_of_inertia_from_radius radius = Inr ((pi / 4) * radius ^ 4)"

definition radius_from_moment_of_inertia :: "real \<Rightarrow> outcome" where
  "radius_from_moment_of_inertia I =
     (if 4 * I / pi < 0 then Inl ComplexResult else Inr (root 4 (4 * I / pi)))"

definition moment_of_inertia_from_area :: "real \<Rightarrow> outcome" where
  "moment_of_inertia_from_area A = py_div (A ^ 2) (4 * pi)"

definition area_from_moment_of_inertia :: "real \<Rightarrow> outcome" where
  "area_from_moment_of_inertia I =
     (if 4 * pi * I < 0 then Inl NanResult else Inr (sqrt (4 * pi * I)))"

subsection \<open>Timoshenko relations\<close>

definition timoshenko_beam_deflection ::
  "real \<Rightarrow> real \<Rightarrow> real \<Rightarrow> real \<Rightarrow> real \<Rightarrow> real \<Rightarrow> real \<Rightarrow> outcome" where
  "timoshenko_beam_deflection P E I L k G A =
     and_then (py_div (P * L ^ 3) (3 * E * I)) (\<lambda>delta_bending.
     and_then (py_div (P * L) (k * G * A)) (\<lambda>delta_shear.
     Inr (delta_bending + delta_shear)))"

definition solve_for_P_from_timoshenko ::
  "real \<Rightarrow> real \<Rightarrow> real \<Rightarrow> real \<Rightarrow> real \<Rightarrow> real \<Rightarrow> real \<Rightarrow> outcome" where
  "solve_for_P_from_timoshenko theta E I L k G A =
     and_then (py_div (L ^ 3) (3 * E * I)) (\<lambda>b.
     and_then (py_div L (k * G * A)) (\<lambda>s.
     py_div theta (b + s)))"

definition solve_for_E_from_timoshenko ::
  "real \<Rightarrow> real \<Rightarrow> real \<Rightarrow> real \<Rightarrow> real \<Rightarrow> real \<Rightarrow> real \<Rightarrow> outcome" where
  "solve_for_E_from_timoshenko theta P I L k G A =
     and_then (py_div (P * L) (k * G * A)) (\<lambda>s.
     py_div (P * L ^ 3) (3 * I * (theta - s)))"

definition solve_for_I_from_timoshenko ::
  "real \<Rightarrow> real \<Rightarrow> real \<Rightarrow> real \<Rightarrow> real \<Rightarrow> real \<Rightarrow> real \<Rightarrow> outcome" where
  "solve_for_I_from_timoshenko theta P E L k G A =
     and_then (py_div (P * L) (k * G * A)) (\<lambda>s.
     py_div (P * L ^ 3) (3 * E * (theta - s)))"

text \<open>
  \<^verbatim>\<open>np.roots\<close> is the numerical library's root finder; it is a parameter \<open>roots\<close> of the
  embedding, from the coefficient list (highest power first) to the array of roots it
  returns, complex in general. The mask \<^verbatim>\<open>np.isreal(roots) & (roots > 0)\<close> keeps
  the entries with imaginary part zero that are greater than zero in the library's
  order on complex numbers (by real part, then by imaginary part).
\<close>

definition isreal :: "complex \<Rightarrow> bool" where
  "isreal z = (Im z = 0)"

definition gt_zero :: "complex \<Rightarrow> bool" where
  "gt_zero z = (0 < Re z \<or> (Re z = 0 \<and> 0 < Im z))"

definition solve_for_L_from_timoshenko ::
  "(real list \<Rightarrow> complex list) \<Rightarrow>
   real \<Rightarrow> real \<Rightarrow> real \<Rightarrow> real \<Rightarrow> real \<Rightarrow> real \<Rightarrow> real \<Rightarrow> outcome" where
  "solve_for_L_from_timoshenko roots theta P E I k G A =
     and_then (py_div P (3 * E * I)) (\<lambda>c3.
     and_then (py_div P (k * G * A)) (\<lambda>c1.
       let coeffs = [c3, 0, c1, - theta];
           real_positive_roots = filter (\<lambda>z. isreal z \<and> gt_zero z) (roots coeffs)
       in if length real_positive_roots > 0
          then Inr (Re (hd real_positive_roots))
          else Inr 0))"

definition solve_for_k_from_timoshenko ::
  "real \<Rightarrow> real \<Rightarrow> real \<Rightarrow> real \<Rightarrow> real \<Rightarrow> real \<Rightarrow> real \<Rightarrow> outcome" where
  "solve_for_k_from_timoshenko theta P E I L G A =
     and_then (py_div (P * L ^ 3) (3 * E * I)) (\<lambda>b.
     py_div (P * L) (G * A * (theta - b)))"

definition solve_for_G_from_timoshenko ::
  "real \<Rightarrow> real \<Rightarrow> real \<Rightarrow> real \<Rightarrow> real \<Rightarrow> real \<Rightarrow> real \<Rightarrow> outcome" where
  "solve_for_G_from_timoshenko theta P E I L k A =
     and_then (py_div (P * L ^ 3) (3 * E * I)) (\<lambda>b.
     py_div (P * L) (k * A * (theta - b)))"

definition solve_for_A_from_timoshenko ::
  "real \<Rightarrow> real \<Rightarrow> real \<Rightarrow> real \<Rightarrow> real \<Rightarrow> real \<Rightarrow> real \<Rightarrow> outcome" where
  "solve_for_A_from_timoshenko theta P E I L k G =
     and_then (py_div (P * L ^ 3) (3 * E * I)) (\<lambda>b.
     py_div (P * L) (k * G * (theta - b)))"

section \<open>The hypergraph\<close>

text \<open>
  A relation function is a Python callable of a fixed number of positional parameters;
  the helpers take one or two, the Timoshenko relations seven. Calling one with another
  number of arguments raises \<^verbatim>\<open>TypeError\<close>.
\<close>

datatype pyfun =
    Fun1 "real \<Rightarrow> outcome"
  | Fun2 "real \<Rightarrow> real \<Rightarrow> outcome"
  | Fun7 "real \<Rightarrow> real \<Rightarrow> real \<Rightarrow> real \<Rightarrow> real \<Rightarrow> real \<Rightarrow> real \<Rightarrow> outcome"

fun arity :: "pyfun \<Rightarrow> nat" where
  "arity (Fun1 f) = 1"
| "arity (Fun2 f) = 2"
| "arity (Fun7 f) = 7"

fun call :: "pyfun \<Rightarrow> real list \<Rightarrow> outcome" where
  "call (Fun1 f) [a] = f a"
| "call (Fun2 f) [a, b] = f a b"
| "call (Fun7 f) [a, b, c, d, e, g, h] = f a b c d e g h"
| "call f args = Inl TypeError"

text \<open>
  Modelled from the spec: the classes \<^verbatim>\<open>Node\<close> and \<^verbatim>\<open>Hypergraph\<close> of the imported package
  \<^verbatim>\<open>constrainthg\<close> are not among the sources. By the spec (3) a node is identified by its
  unique label; a relation has an ordered list of input nodes, one output node, a function
  and a label; and the model holds the registered nodes and relations in registration
  order. A construction fails with one of three errors (7).
\<close>

type_synonym node = string

record edge =
  edge_inputs :: "node list"
  edge_target :: node
  edge_rel :: pyfun
  edge_label :: string

record hypergraph =
  nodes :: "node list"
  edges :: "edge list"

datatype model_error =
    DuplicateNodeError node
  | UnknownNodeError node
  | ArityMismatchError string

definition Hypergraph :: hypergraph where
  "Hypergraph = \<lparr>nodes = [], edges = []\<rparr>"

text \<open>
  Modelled from the spec (4.1): \<^verbatim>\<open>add_node\<close> registers a node and fails with
  \<^verbatim>\<open>DuplicateNodeError\<close> if the label already exists.
\<close>

definition add_node :: "node \<Rightarrow> hypergraph \<Rightarrow> model_error + hypergraph" where
  "add_node n hg =
     (if n \<in> set (nodes hg) then Inl (DuplicateNodeError n)
      else Inr (hg\<lparr>nodes := nodes hg @ [n]\<rparr>))"

text \<open>
  Modelled from the spec: \<^verbatim>\<open>add_relation\<close> (in the source, \<^verbatim>\<open>add_edge\<close>) registers a
  relation; it fails with \<^verbatim>\<open>ArityMismatchError\<close> if the number of inputs is not the arity
  of the function, and with \<^verbatim>\<open>UnknownNodeError\<close> if a referenced node was not registered
  before.
\<close>

definition add_edge ::
  "node list \<Rightarrow> node \<Rightarrow> pyfun \<Rightarrow> string \<Rightarrow> hypergraph \<Rightarrow> model_error + hypergraph" where
  "add_edge inputs target rel label hg =
     (if length inputs \<noteq> arity rel then Inl (ArityMismatchError label)
      else case filter (\<lambda>n. n \<notin> set (nodes hg)) (inputs @ [target]) of
        n # _ \<Rightarrow> Inl (UnknownNodeError n)
      | [] \<Rightarrow> Inr (hg\<lparr>edges := edges hg @
                 [\<lparr>edge_inputs = inputs, edge_target = target,
                   edge_rel = rel, edge_label = label\<rparr>]\<rparr>))"

text \<open>
  Modelled from the spec: \<^verbatim>\<open>relations_for\<close> returns the relations whose output is the
  node, in registration order.
\<close>

definition relations_for :: "hypergraph \<Rightarrow> node \<Rightarrow> edge list" where
  "relations_for hg n = filter (\<lambda>e. edge_target e = n) (edges hg)"

text \<open>The calls of a construction run in order; the first exception ends it.\<close>

fun run_steps ::
  "(hypergraph \<Rightarrow> model_error + hypergraph) list \<Rightarrow> hypergraph \<Rightarrow> model_error + hypergraph" where
  "run_steps [] hg = Inr hg"
| "run_steps (step # steps) hg =
     (case step hg of Inl e \<Rightarrow> Inl e | Inr hg' \<Rightarrow> run_steps steps hg')"

definition create_beam_model :: "(real list \<Rightarrow> complex list) \<Rightarrow> model_error + hypergraph" where
  "create_beam_model roots =
     (let P = ''point load'';
          k = ''kappa'';
          E = ''youngs modulus'';
          I = ''moment of inertia'';
          G = ''shear modulus'';
          A = ''area'';
          L = ''length'';
          theta = ''theta''
      in run_steps
        [add_node P, add_node k, add_node E, add_node I,
         add_node G, add_node A, add_node L, add_node theta,
         add_edge [P, E, I, L, k, G, A] theta (Fun7 timoshenko_beam_deflection) ''Timoshenko'',
         add_edge [theta, E, I, L, k, G, A] P (Fun7 solve_for_P_from_timoshenko) ''Timoshenko->P'',
         add_edge [theta, P, I, L, k, G, A] E (Fun7 solve_for_E_from_timoshenko) ''Timoshenko->E'',
         add_edge [theta, P, E, L, k, G, A] I (Fun7 solve_for_I_from_timoshenko) ''Timoshenko->I'',
         add_edge [theta, P, E, I, k, G, A] L (Fun7 (solve_for_L_from_timoshenko roots))
           ''Timoshenko->L'',
         add_edge [theta, P, E, I, L, G, A] k (Fun7 solve_for_k_from_timoshenko) ''Timoshenko->k'',
         add_edge [theta, P, E, I, L, k, A] G (Fun7 solve_for_G_from_timoshenko) ''Timoshenko->G'',
         add_edge [theta, P, E, I, L, k, G] A (Fun7 solve_for_A_from_timoshenko) ''Timoshenko->A'']
        Hypergraph)"

section \<open>The resolver\<close>

text \<open>
  Modelled from the spec: the resolver (the search that \<^verbatim>\<open>plot_simulation\<close> runs over the
  hypergraph) is not among the sources. The spec (3, 4.2) gives its session state and
  its algorithm: the values resolved so far, seeded with the known values, the relation
  that produced each computed node, and the nodes on the current path of the search.
\<close>

record step =
  step_relation :: string
  step_inputs :: "(node \<times> real) list"
  step_output :: "node \<times> real"

record session =
  resolved :: "node \<rightharpoonup> real"
  provenance :: "node \<rightharpoonup> step"

datatype failure =
    CycleDetectedError node
  | DepthExceededError node
  | UnresolvedNodeError node

text \<open>
  Modelled from the spec (4.2, step 1): to resolve node \<open>n\<close> at remaining depth \<open>d\<close>,
  (a) a known or already resolved node returns its value; (b) a node on the current path
  fails with \<^verbatim>\<open>CycleDetectedError\<close>; (c) depth 0 fails with \<^verbatim>\<open>DepthExceededError\<close>;
  (d) otherwise each relation for \<open>n\<close> is tried in registration order, its inputs resolved
  at depth \<open>d - 1\<close>, and the first whose inputs all resolve and whose function returns a
  number gives the value, which is recorded with its provenance; (e) when every relation
  fails, the node fails with \<^verbatim>\<open>UnresolvedNodeError\<close>. A result over the reals is always
  finite, so the spec's rejection of a non-finite result has no case here.
\<close>

function (sequential) resolve_node ::
  "hypergraph \<Rightarrow> nat \<Rightarrow> node list \<Rightarrow> session \<Rightarrow> node \<Rightarrow> (failure + real) \<times> session"
and try_relations ::
  "hypergraph \<Rightarrow> nat \<Rightarrow> node list \<Rightarrow> session \<Rightarrow> node \<Rightarrow> edge list
     \<Rightarrow> (failure + real) \<times> session"
and resolve_inputs ::
  "hypergraph \<Rightarrow> nat \<Rightarrow> node list \<Rightarrow> session \<Rightarrow> node list
     \<Rightarrow> (failure + real list) \<times> session"
where
  "resolve_node hg d resolving s n =
     (case resolved s n of
        Some v \<Rightarrow> (Inr v, s)
      | None \<Rightarrow>
          if n \<in> set resolving then (Inl (CycleDetectedError n), s)
          else (case d of
                  0 \<Rightarrow> (Inl (DepthExceededError n), s)
                | Suc d' \<Rightarrow> try_relations hg d' (n # resolving) s n (relations_for hg n)))"
| "try_relations hg d resolving s n [] = (Inl (UnresolvedNodeError n), s)"
| "try_relations hg d resolving s n (r # rs) =
     (case resolve_inputs hg d resolving s (edge_inputs r) of
        (Inl f, s') \<Rightarrow> try_relations hg d resolving s' n rs
      | (Inr vs, s') \<Rightarrow>
          (case call (edge_rel r) vs of
             Inl e \<Rightarrow> try_relations hg d resolving s' n rs
           | Inr v \<Rightarrow>
               (Inr v,
                s'\<lparr>resolved := (resolved s')(n \<mapsto> v),
                   provenance := (provenance s')(n \<mapsto>
                     \<lparr>step_relation = edge_label r,
                      step_inputs = zip (edge_inputs r) vs,
                      step_output = (n, v)\<rparr>)\<rparr>)))"
| "resolve_inputs hg d resolving s [] = (Inr [], s)"
| "resolve_inputs hg d resolving s (i # is) =
     (case resolve_node hg d resolving s i of
        (Inl f, s') \<Rightarrow> (Inl f, s')
      | (Inr v, s') \<Rightarrow>
          (case resolve_inputs hg d resolving s' is of
             (Inl f, s'') \<Rightarrow> (Inl f, s'')
           | (Inr vs, s'') \<Rightarrow> (Inr (v # vs), s'')))"
  by pat_completeness auto
termination
  by (relation "inv_image (less_than <*lex*> less_than <*lex*> less_than)
        (\<lambda>x. case x of
           Inl (hg, d, resolving, s, n) \<Rightarrow> (d, 0, 0)
         | Inr (Inl (hg, d, resolving, s, n, rs)) \<Rightarrow> (d, 2, length rs)
         | Inr (Inr (hg, d, resolving, s, is)) \<Rightarrow> (d, 1, length is))") auto

text \<open>
  Modelled from the spec (4.2, step 2): the trace is the provenance chain from the target
  back to the known values, found by walking the provenance pointers; a chain is no
  longer than the depth bound.
\<close>

fun trace :: "(node \<rightharpoonup> step) \<Rightarrow> nat \<Rightarrow> node \<Rightarrow> step list" where
  "trace prov 0 n = []"
| "trace prov (Suc d) n =
     (case prov n of
        None \<Rightarrow> []
      | Some st \<Rightarrow> st # concat (map (trace prov d) (map fst (step_inputs st))))"

datatype resolution = Resolved real "step list" | Failure failure

text \<open>
  Modelled from the spec (4.2, 7): a call of \<^verbatim>\<open>resolve\<close> starts a fresh session from the
  known values; the only failure it returns is \<^verbatim>\<open>UnresolvedNodeError\<close> for the target.
\<close>

definition resolve :: "hypergraph \<Rightarrow> (node \<rightharpoonup> real) \<Rightarrow> node \<Rightarrow> nat \<Rightarrow> resolution" where
  "resolve model knowns target max_depth =
     (case resolve_node model max_depth [] \<lparr>resolved = knowns, provenance = Map.empty\<rparr> target of
        (Inr v, s) \<Rightarrow> Resolved v (trace (provenance s) max_depth target)
      | (Inl f, s) \<Rightarrow> Failure (UnresolvedNodeError target))"

section \<open>The simulation of \<^verbatim>\<open>beam_simulation.py\<close>\<close>

definition simulation_inputs :: "(node \<times> real) list" where
  "simulation_inputs =
     [(''youngs modulus'', 200000000000),
      (''moment of inertia'', 1 / 1000000),
      (''length'', 2),
      (''kappa'', 5 / 6),
      (''shear modulus'', 80000000000),
      (''area'', 1 / 10000),
      (''point load'', 1000)]"

text \<open>
  Modelled from the spec: \<^verbatim>\<open>plot_simulation\<close> (package \<^verbatim>\<open>plothg\<close>, not among the sources)
  resolves the target from the inputs within the search depth; its drawing is not
  modelled.
\<close>

definition run_beam_simulation :: "(real list \<Rightarrow> complex list) \<Rightarrow> model_error + resolution" where
  "run_beam_simulation roots =
     and_then (create_beam_model roots) (\<lambda>hg.
       Inr (resolve hg (map_of simulation_inputs) ''theta'' 1000))"

section \<open>The form of \<^verbatim>\<open>beam_gui.py\<close>\<close>

text \<open>
  What \<^verbatim>\<open>run_simulation\<close> does is the list of its effects, in order: the error dialogs
  it shows, the status texts it sets, the window updates, and its calls of
  \<^verbatim>\<open>create_beam_model\<close> and \<^verbatim>\<open>plot_simulation\<close>.
\<close>

datatype event =
    ShowError string string
  | StatusConfig string
  | RootUpdate
  | CallCreateBeamModel
  | CallPlotSimulation "(string \<times> real) list" string nat

text \<open>The keys of \<^verbatim>\<open>self.variables\<close>, in the order of the dictionary.\<close>

definition variables :: "string list" where
  "variables =
     [''point load'', ''kappa'', ''youngs modulus'', ''moment of inertia'',
      ''shear modulus'', ''area'', ''length'', ''theta'']"

text \<open>
  The loop over the variables. \<open>py_float\<close> is Python's \<^verbatim>\<open>float\<close>, the conversion of
  the entry's text, \<open>None\<close> when it raises \<^verbatim>\<open>ValueError\<close>; \<open>input_vars\<close> gives the text of
  each entry. The loop returns the name of the first variable whose text does not convert,
  or the inputs.
\<close>

fun get_inputs ::
  "(string \<Rightarrow> real option) \<Rightarrow> (string \<Rightarrow> string) \<Rightarrow> string list \<Rightarrow> (string \<times> real) list
     \<Rightarrow> string + (string \<times> real) list" where
  "get_inputs py_float input_vars [] inputs = Inr inputs"
| "get_inputs py_float input_vars (var_name # rest) inputs =
     (if var_name \<noteq> ''theta''
      then (case py_float (input_vars var_name) of
              None \<Rightarrow> Inl var_name
            | Some v \<Rightarrow> get_inputs py_float input_vars rest (inputs @ [(var_name, v)]))
      else get_inputs py_float input_vars rest inputs)"

text \<open>
  \<open>str\<close> is the text of a construction error, and \<open>plot_simulation\<close> returns the text of
  the exception it raised, if any; both reach the handler of the outer \<^verbatim>\<open>try\<close>.
\<close>

definition run_simulation ::
  "(string \<Rightarrow> real option) \<Rightarrow> (real list \<Rightarrow> complex list) \<Rightarrow> (model_error \<Rightarrow> string) \<Rightarrow>
   (hypergraph \<Rightarrow> (string \<times> real) list \<Rightarrow> string \<Rightarrow> nat \<Rightarrow> string option) \<Rightarrow>
   (string \<Rightarrow> string) \<Rightarrow> event list" where
  "run_simulation py_float roots str plot_simulation input_vars =
     (case get_inputs py_float input_vars variables [] of
        Inl var_name \<Rightarrow> [ShowError ''Error'' (''Invalid number for '' @ var_name)]
      | Inr inputs \<Rightarrow>
          [StatusConfig ''Creating beam model...'', RootUpdate, CallCreateBeamModel] @
          (case create_beam_model roots of
             Inl e \<Rightarrow>
               [ShowError ''Error'' (''Simulation failed: '' @ str e),
                StatusConfig ''Simulation failed'']
           | Inr hg \<Rightarrow>
               [StatusConfig ''Running simulation...'', RootUpdate,
                CallPlotSimulation inputs ''theta'' 1000] @
               (case plot_simulation hg inputs ''theta'' 1000 of
                  Some msg \<Rightarrow>
                    [ShowError ''Error'' (''Simulation failed: '' @ msg),
                     StatusConfig ''Simulation failed'']
                | None \<Rightarrow> [StatusConfig ''Beam simulation completed!''])))"

section \<open>Binary64 evaluation of two relations\<close>

text \<open>
  The forward relation and the inverse for \<open>E\<close> once more, now with the rounding of Python's
  floats (IEEE 754 binary64) written out. The exponent range is not bounded here: overflow,
  underflow and subnormal numbers are not modelled.
\<close>

definition round_half_even :: "real \<Rightarrow> int" where
  "round_half_even x =
     (let f = \<lfloor>x\<rfloor>; r = x - of_int f
      in if r < 1 / 2 then f
         else if 1 / 2 < r then f + 1
         else if even f then f else f + 1)"

text \<open>
  Rounding to nearest, ties to even, to a significand of 53 bits: \<open>e\<close> is the exponent of
  \<open>x\<close> and \<open>ulp\<close> the spacing of the representable numbers at \<open>x\<close>.
\<close>

definition binary64 :: "real \<Rightarrow> real" where
  "binary64 x =
     (if x = 0 then 0
      else let e = \<lfloor>log 2 \<bar>x\<bar>\<rfloor>; ulp = 2 powi (e - 52)
           in of_int (round_half_even (x / ulp)) * ulp)"

text \<open>
  Each arithmetic operation of the source rounds its exact result once; \<^verbatim>\<open>L**3\<close> is taken
  as the correctly rounded cube. The operations are grouped by Python's precedence and
  left associativity: \<^verbatim>\<open>3 * E * I\<close> is \<^verbatim>\<open>(3 * E) * I\<close>.
\<close>

definition div_b64 :: "real \<Rightarrow> real \<Rightarrow> outcome" where
  "div_b64 a b = (if b = 0 then Inl ZeroDivisionError else Inr (binary64 (a / b)))"

definition timoshenko_beam_deflection_b64 ::
  "real \<Rightarrow> real \<Rightarrow> real \<Rightarrow> real \<Rightarrow> real \<Rightarrow> real \<Rightarrow> real \<Rightarrow> outcome" where
  "timoshenko_beam_deflection_b64 P E I L k G A =
     and_then (div_b64 (binary64 (P * binary64 (L ^ 3))) (binary64 (binary64 (3 * E) * I)))
       (\<lambda>delta_bending.
     and_then (div_b64 (binary64 (P * L)) (binary64 (binary64 (k * G) * A)))
       (\<lambda>delta_shear.
     Inr (binary64 (delta_bending + delta_shear))))"

definition solve_for_E_from_timoshenko_b64 ::
  "real \<Rightarrow> real \<Rightarrow> real \<Rightarrow> real \<Rightarrow> real \<Rightarrow> real \<Rightarrow> real \<Rightarrow> outcome" where
  "solve_for_E_from_timoshenko_b64 theta P I L k G A =
     and_then (div_b64 (binary64 (P * L)) (binary64 (binary64 (k * G) * A))) (\<lambda>s.
     div_b64 (binary64 (P * binary64 (L ^ 3)))
       (binary64 (binary64 (3 * I) * binary64 (theta - s))))"

section \<open>The model built by \<^verbatim>\<open>create_beam_model\<close>\<close>

lemma create_beam_model_value:
  "create_beam_model roots = Inr
     \<lparr>nodes = [''point load'', ''kappa'', ''youngs modulus'', ''moment of inertia'',
               ''shear modulus'', ''area'', ''length'', ''theta''],
      edges =
       [\<lparr>edge_inputs = [''point load'', ''youngs modulus'', ''moment of inertia'', ''length'',
                        ''kappa'', ''shear modulus'', ''area''],
         edge_target = ''theta'', edge_rel = Fun7 timoshenko_beam_deflection,
         edge_label = ''Timoshenko''\<rparr>,
        \<lparr>edge_inputs = [''theta'', ''youngs modulus'', ''moment of inertia'', ''length'',
                        ''kappa'', ''shear modulus'', ''area''],
         edge_target = ''point load'', edge_rel = Fun7 solve_for_P_from_timoshenko,
         edge_label = ''Timoshenko->P''\<rparr>,
        \<lparr>edge_inputs = [''theta'', ''point load'', ''moment of inertia'', ''length'',
                        ''kappa'', ''shear modulus'', ''area''],
         edge_target = ''youngs modulus'', edge_rel = Fun7 solve_for_E_from_timoshenko,
         edge_label = ''Timoshenko->E''\<rparr>,
        \<lparr>edge_inputs = [''theta'', ''point load'', ''youngs modulus'', ''length'',
                        ''kappa'', ''shear modulus'', ''area''],
         edge_target = ''moment of inertia'', edge_rel = Fun7 solve_for_I_from_timoshenko,
         edge_label = ''Timoshenko->I''\<rparr>,
        \<lparr>edge_inputs = [''theta'', ''point load'', ''youngs modulus'', ''moment of inertia'',
                        ''kappa'', ''shear modulus'', ''area''],
         edge_target = ''length'', edge_rel = Fun7 (solve_for_L_from_timoshenko roots),
         edge_label = ''Timoshenko->L''\<rparr>,
        \<lparr>edge_inputs = [''theta'', ''point load'', ''youngs modulus'', ''moment of inertia'',
                        ''length'', ''shear modulus'', ''area''],
         edge_target = ''kappa'', edge_rel = Fun7 solve_for_k_from_timoshenko,
         edge_label = ''Timoshenko->k''\<rparr>,
        \<lparr>edge_inputs = [''theta'', ''point load'', ''youngs modulus'', ''moment of inertia'',
                        ''length'', ''kappa'', ''area''],
         edge_target = ''shear modulus'', edge_rel = Fun7 solve_for_G_from_timoshenko,
         edge_label = ''Timoshenko->G''\<rparr>,
        \<lparr>edge_inputs = [''theta'', ''point load'', ''youngs modulus'', ''moment of inertia'',
                        ''length'', ''kappa'', ''shear modulus''],
         edge_target = ''area'', edge_rel = Fun7 solve_for_A_from_timoshenko,
         edge_label = ''Timoshenko->A''\<rparr>]\<rparr>"
  by (simp add: create_beam_model_def Hypergraph_def add_node_def add_edge_def Let_def)

text \<open>
  C6 (arity invariant). The construction succeeds, so no registration raised an arity
  mismatch (nor any other construction error), and each of the eight registered edges
  declares seven input nodes and binds a function of seven parameters.
\<close>

theorem create_beam_model_arity:
  "\<exists>hg. create_beam_model roots = Inr hg \<and> length (edges hg) = 8 \<and>
     list_all (\<lambda>e. length (edge_inputs e) = 7 \<and> arity (edge_rel e) = 7) (edges hg)"
  by (simp add: create_beam_model_value)

text \<open>
  C9 (single producer). The model has exactly the eight nodes point load, kappa, youngs
  modulus, moment of inertia, shear modulus, area, length and theta, and for each of them
  exactly one registered relation has it as its target.
\<close>

theorem create_beam_model_single_producer:
  "\<exists>hg. create_beam_model roots = Inr hg \<and>
     nodes hg = [''point load'', ''kappa'', ''youngs modulus'', ''moment of inertia'',
                 ''shear modulus'', ''area'', ''length'', ''theta''] \<and>
     map (\<lambda>n. length (relations_for hg n)) (nodes hg) = [1, 1, 1, 1, 1, 1, 1, 1]"
  by (simp add: create_beam_model_value relations_for_def)

text \<open>
  C10 (only the Timoshenko relations are registered). The edges of the model are the
  eight Timoshenko relations, in registration order; none of the nine material and
  geometry helpers is the function of an edge; there is no radius and no poisson ratio
  node; and the one relation that produces area (shear modulus) is the Timoshenko
  inverse, whose inputs are the seven other nodes of the model.
\<close>

theorem create_beam_model_only_timoshenko:
  "\<exists>hg. create_beam_model roots = Inr hg \<and>
     nodes hg = [''point load'', ''kappa'', ''youngs modulus'', ''moment of inertia'',
                 ''shear modulus'', ''area'', ''length'', ''theta''] \<and>
     map edge_label (edges hg) =
       [''Timoshenko'', ''Timoshenko->P'', ''Timoshenko->E'', ''Timoshenko->I'',
        ''Timoshenko->L'', ''Timoshenko->k'', ''Timoshenko->G'', ''Timoshenko->A''] \<and>
     map edge_rel (edges hg) =
       [Fun7 timoshenko_beam_deflection, Fun7 solve_for_P_from_timoshenko,
        Fun7 solve_for_E_from_timoshenko, Fun7 solve_for_I_from_timoshenko,
        Fun7 (solve_for_L_from_timoshenko roots), Fun7 solve_for_k_from_timoshenko,
        Fun7 solve_for_G_from_timoshenko, Fun7 solve_for_A_from_timoshenko] \<and>
     Fun2 shear_modulus_from_elastic_poisson \<notin> set (map edge_rel (edges hg)) \<and>
     Fun2 elastic_modulus_from_shear_poisson \<notin> set (map edge_rel (edges hg)) \<and>
     Fun2 poisson_from_elastic_shear \<notin> set (map edge_rel (edges hg)) \<and>
     Fun1 area_from_radius \<notin> set (map edge_rel (edges hg)) \<and>
     Fun1 radius_from_area \<notin> set (map edge_rel (edges hg)) \<and>
     Fun1 moment_of_inertia_from_radius \<notin> set (map edge_rel (edges hg)) \<and>
     Fun1 radius_from_moment_of_inertia \<notin> set (map edge_rel (edges hg)) \<and>
     Fun1 moment_of_inertia_from_area \<notin> set (map edge_rel (edges hg)) \<and>
     Fun1 area_from_moment_of_inertia \<notin> set (map edge_rel (edges hg)) \<and>
     ''radius'' \<notin> set (nodes hg) \<and>
     ''poisson ratio'' \<notin> set (nodes hg) \<and>
     map (\<lambda>e. (edge_label e, edge_inputs e)) (relations_for hg ''area'') =
       [(''Timoshenko->A'', [''theta'', ''point load'', ''youngs modulus'',
          ''moment of inertia'', ''length'', ''kappa'', ''shear modulus''])] \<and>
     map (\<lambda>e. (edge_label e, edge_inputs e)) (relations_for hg ''shear modulus'') =
       [(''Timoshenko->G'', [''theta'', ''point load'', ''youngs modulus'',
          ''moment of inertia'', ''length'', ''kappa'', ''area''])]"
  by (simp add: create_beam_model_value relations_for_def)

section \<open>The form: a field that is not a number\<close>

lemma get_inputs_find:
  "get_inputs py_float input_vars vs acc =
     (case find (\<lambda>u. u \<noteq> ''theta'' \<and> py_float (input_vars u) = None) vs of
        Some w \<Rightarrow> Inl w
      | None \<Rightarrow> Inr (acc @ map (\<lambda>u. (u, the (py_float (input_vars u))))
                          (filter (\<lambda>u. u \<noteq> ''theta'') vs)))"
  by (induction vs arbitrary: acc) (auto split: option.splits)

text \<open>
  C7 (conversion failures are reported by the form). If the text of at least one field
  other than theta does not convert to a number, \<^verbatim>\<open>run_simulation\<close> shows one error dialog,
  which names the first such field in the order of the form, and does nothing else: it
  neither constructs the model nor calls \<^verbatim>\<open>plot_simulation\<close>.
\<close>

theorem run_simulation_invalid_number:
  assumes "v \<in> set variables" and "v \<noteq> ''theta''" and "py_float (input_vars v) = None"
  shows "\<exists>w. find (\<lambda>u. u \<noteq> ''theta'' \<and> py_float (input_vars u) = None) variables = Some w \<and>
           run_simulation py_float roots str plot_simulation input_vars =
             [ShowError ''Error'' (''Invalid number for '' @ w)] \<and>
           CallCreateBeamModel \<notin>
             set (run_simulation py_float roots str plot_simulation input_vars) \<and>
           (\<forall>i t d. CallPlotSimulation i t d \<notin>
                      set (run_simulation py_float roots str plot_simulation input_vars))"
proof -
  let ?bad = "\<lambda>u. u \<noteq> ''theta'' \<and> py_float (input_vars u) = None"
  from assms have "\<exists>u\<in>set variables. ?bad u" by blast
  then obtain w where w: "find ?bad variables = Some w"
    by (cases "find ?bad variables") (auto simp: find_None_iff)
  have "run_simulation py_float roots str plot_simulation input_vars =
          [ShowError ''Error'' (''Invalid number for '' @ w)]"
    by (simp add: run_simulation_def get_inputs_find w)
  with w show ?thesis by simp
qed

theorem run_simulation_invalid_number_witness:
  "run_simulation (\<lambda>s. if s = ''1'' then Some 1 else None) (\<lambda>cs. []) (\<lambda>e. ''error'')
       (\<lambda>hg i t d. None) (\<lambda>v. if v = ''area'' then ''abc'' else ''1'') =
     [ShowError ''Error'' ''Invalid number for area'']"
  using run_simulation_invalid_number
    [of "''area''" "\<lambda>s. if s = ''1'' then Some 1 else None"
        "\<lambda>v. if v = ''area'' then ''abc'' else ''1''" "\<lambda>cs. []" "\<lambda>e. ''error''"
        "\<lambda>hg i t d. None"]
  by (simp add: variables_def)

section \<open>Resolution over the beam model\<close>

text \<open>Inputs that are all known resolve to their values and leave the session as it is.\<close>

lemma resolve_inputs_known:
  "\<forall>i\<in>set is. resolved s i \<noteq> None \<Longrightarrow>
     resolve_inputs hg d resolving s is = (Inr (map (\<lambda>i. the (resolved s i)) is), s)"
  by (induction "is") auto

lemma trace_no_provenance: "prov n = None \<Longrightarrow> trace prov d n = []"
  by (cases d) auto

text \<open>
  A target with one relation whose inputs are all known: one evaluation of the relation's
  function decides the resolution, at any depth bound of at least 1.
\<close>

lemma resolve_single_relation:
  assumes rel: "relations_for hg t = [r]"
    and unknown: "knowns t = None"
    and known: "set (edge_inputs r) \<subseteq> dom knowns"
  shows "resolve hg knowns t (Suc d) =
     (case call (edge_rel r) (map (\<lambda>i. the (knowns i)) (edge_inputs r)) of
        Inl e \<Rightarrow> Failure (UnresolvedNodeError t)
      | Inr v \<Rightarrow> Resolved v
          [\<lparr>step_relation = edge_label r,
            step_inputs = zip (edge_inputs r) (map (\<lambda>i. the (knowns i)) (edge_inputs r)),
            step_output = (t, v)\<rparr>])"
proof -
  let ?s = "\<lparr>resolved = knowns, provenance = Map.empty\<rparr>"
  have inp: "resolve_inputs hg d [t] ?s (edge_inputs r) =
      (Inr (map (\<lambda>i. the (knowns i)) (edge_inputs r)), ?s)"
    using resolve_inputs_known[of "edge_inputs r" ?s hg d "[t]"] known by auto
  have nt: "t \<notin> set (edge_inputs r)" using unknown known by auto
  have ne: "i \<noteq> t" if "i \<in> set (edge_inputs r)" for i
    using nt that by auto
  have tr: "concat (map (trace (Map.empty(t \<mapsto> st)) d) (edge_inputs r)) = []" for st
    by (simp add: trace_no_provenance ne)
  show ?thesis
    using nt by (auto simp: resolve_def rel unknown inp tr map_fst_zip split: sum.splits)
qed

text \<open>
  The invariant of the search below an unknown node \<open>t\<close> that is on the current path, in a
  model where every relation for another node has \<open>t\<close> among its inputs: a call leaves the
  session as it is, a node resolves only if its value is already in the session, and a
  node whose relations all have an unresolved input is unresolved.
\<close>

lemma cycle_invariant:
  assumes cyc: "\<forall>e\<in>set (edges hg). edge_target e \<noteq> t \<longrightarrow> t \<in> set (edge_inputs e)"
  shows "(t \<in> set resolving \<longrightarrow> resolved s t = None \<longrightarrow>
            snd (resolve_node hg d resolving s n) = s \<and>
            (\<forall>v. fst (resolve_node hg d resolving s n) = Inr v \<longrightarrow> resolved s n = Some v))"
    and "(t \<in> set resolving \<longrightarrow> resolved s t = None \<longrightarrow>
            (\<forall>r\<in>set rs. \<exists>i\<in>set (edge_inputs r). resolved s i = None) \<longrightarrow>
            try_relations hg d resolving s n rs = (Inl (UnresolvedNodeError n), s))"
    and "(t \<in> set resolving \<longrightarrow> resolved s t = None \<longrightarrow>
            snd (resolve_inputs hg d resolving s is) = s \<and>
            (\<forall>vs. fst (resolve_inputs hg d resolving s is) = Inr vs \<longrightarrow>
                  (\<forall>i\<in>set is. resolved s i \<noteq> None)))"
  using cyc
proof (induction hg d resolving s n and hg d resolving s n rs and hg d resolving s "is"
       rule: resolve_node_try_relations_resolve_inputs.induct)
  case (1 hg d resolving s n)
  show ?case
  proof (intro impI)
    assume t: "t \<in> set resolving" and u: "resolved s t = None"
    show "snd (resolve_node hg d resolving s n) = s \<and>
            (\<forall>v. fst (resolve_node hg d resolving s n) = Inr v \<longrightarrow> resolved s n = Some v)"
    proof (cases "resolved s n")
      case (Some v) then show ?thesis by simp
    next
      case None
      show ?thesis
      proof (cases "n \<in> set resolving")
        case True with None show ?thesis by simp
      next
        case False
        show ?thesis
        proof (cases d)
          case 0 with None False show ?thesis by simp
        next
          case (Suc d')
          have nt: "n \<noteq> t" using False t by auto
          have "\<forall>r\<in>set (relations_for hg n). \<exists>i\<in>set (edge_inputs r). resolved s i = None"
            using "1.prems" nt u by (auto simp: relations_for_def)
          with "1.IH"[OF None False Suc "1.prems"] t u
          have "try_relations hg d' (n # resolving) s n (relations_for hg n) =
                  (Inl (UnresolvedNodeError n), s)" by simp
          with None False Suc show ?thesis by simp
        qed
      qed
    qed
  qed
next
  case (2 hg d resolving s n)
  then show ?case by simp
next
  case (3 hg d resolving s n r rs)
  show ?case
  proof (intro impI)
    assume t: "t \<in> set resolving" and u: "resolved s t = None"
      and ex: "\<forall>r\<in>set (r # rs). \<exists>i\<in>set (edge_inputs r). resolved s i = None"
    obtain x y where xy: "resolve_inputs hg d resolving s (edge_inputs r) = (x, y)"
      by (cases "resolve_inputs hg d resolving s (edge_inputs r)")
    from "3.IH"(1)[OF "3.prems"] t u xy
    have y: "y = s" and inr: "\<forall>vs. x = Inr vs \<longrightarrow> (\<forall>i\<in>set (edge_inputs r). resolved s i \<noteq> None)"
      by auto
    from ex inr obtain a where a: "x = Inl a" by (cases x) auto
    from "3.IH"(2)[OF xy[symmetric] a "3.prems"] t u ex y
    have "try_relations hg d resolving s n rs = (Inl (UnresolvedNodeError n), s)" by simp
    with xy a y show "try_relations hg d resolving s n (r # rs) = (Inl (UnresolvedNodeError n), s)"
      by simp
  qed
next
  case (4 hg d resolving s)
  then show ?case by simp
next
  case (5 hg d resolving s i "is")
  show ?case
  proof (intro impI)
    assume t: "t \<in> set resolving" and u: "resolved s t = None"
    obtain x y where xy: "resolve_node hg d resolving s i = (x, y)"
      by (cases "resolve_node hg d resolving s i")
    from "5.IH"(1)[OF "5.prems"] t u xy
    have y: "y = s" and inr: "\<forall>v. x = Inr v \<longrightarrow> resolved s i = Some v" by auto
    show "snd (resolve_inputs hg d resolving s (i # is)) = s \<and>
            (\<forall>vs. fst (resolve_inputs hg d resolving s (i # is)) = Inr vs \<longrightarrow>
                  (\<forall>i\<in>set (i # is). resolved s i \<noteq> None))"
    proof (cases x)
      case (Inl f) with xy y show ?thesis by simp
    next
      case (Inr v)
      from "5.IH"(2)[OF xy[symmetric] Inr "5.prems"] t u y
      have rest: "snd (resolve_inputs hg d resolving s is) = s \<and>
            (\<forall>vs. fst (resolve_inputs hg d resolving s is) = Inr vs \<longrightarrow>
                  (\<forall>i\<in>set is. resolved s i \<noteq> None))" by simp
      obtain x' y' where xy': "resolve_inputs hg d resolving s is = (x', y')"
        by (cases "resolve_inputs hg d resolving s is")
      with rest have y': "y' = s" and inr': "\<forall>vs. x' = Inr vs \<longrightarrow> (\<forall>i\<in>set is. resolved s i \<noteq> None)"
        by auto
      from inr Inr have "resolved s i = Some v" by simp
      with xy y Inr xy' y' inr' show ?thesis by (cases x') auto
    qed
  qed
qed

text \<open>In the beam model the inputs of every relation are all the nodes but its target.\<close>

lemma beam_model_inputs:
  assumes "create_beam_model roots = Inr hg"
  shows "\<forall>e\<in>set (edges hg). set (edge_inputs e) = set (nodes hg) - {edge_target e}"
proof -
  from assms create_beam_model_value[of roots] have "hg = projr (create_beam_model roots)"
    by simp
  then show ?thesis
    unfolding create_beam_model_value by (simp add: insert_Diff_if insert_commute)
qed

text \<open>
  C4 (cycle safety). In the model built by \<^verbatim>\<open>create_beam_model\<close>, if the target is not
  known and at least one other node of the model is not known either, then for every depth
  bound the resolution returns (the function is total, so it terminates) and its result
  is the failure \<^verbatim>\<open>UnresolvedNodeError\<close> for the target.
\<close>

theorem cycle_safety:
  assumes model: "create_beam_model roots = Inr hg"
    and target: "knowns target = None"
    and leaf: "u \<in> set (nodes hg)" "u \<noteq> target" "knowns u = None"
  shows "resolve hg knowns target max_depth = Failure (UnresolvedNodeError target)"
proof (cases max_depth)
  case 0
  with target show ?thesis by (simp add: resolve_def)
next
  case (Suc d)
  let ?s = "\<lparr>resolved = knowns, provenance = Map.empty\<rparr>"
  note inp = beam_model_inputs[OF model]
  have cyc: "\<forall>e\<in>set (edges hg). edge_target e \<noteq> target \<longrightarrow> target \<in> set (edge_inputs e)"
    if "target \<in> set (nodes hg)"
    using inp that by auto
  have blocked: "\<forall>r\<in>set (relations_for hg target). \<exists>i\<in>set (edge_inputs r). resolved ?s i = None"
    using inp leaf by (auto simp: relations_for_def)
  have "try_relations hg d [target] ?s target (relations_for hg target) =
          (Inl (UnresolvedNodeError target), ?s)"
  proof (cases "target \<in> set (nodes hg)")
    case True
    from cycle_invariant(2)[OF cyc[OF True], of "[target]" ?s "relations_for hg target" d target]
      target blocked
    show ?thesis by simp
  next
    case False
    have "relations_for hg target = []"
      using False model create_beam_model_value[of roots]
      by (auto simp: relations_for_def filter_empty_conv)
    then show ?thesis by simp
  qed
  with Suc target show ?thesis by (simp add: resolve_def)
qed

theorem cycle_safety_witness:
  "\<exists>hg. create_beam_model (\<lambda>cs. []) = Inr hg \<and>
     resolve hg [''youngs modulus'' \<mapsto> 1, ''area'' \<mapsto> 2] ''theta'' 5 =
       Failure (UnresolvedNodeError ''theta'')"
  using cycle_safety[OF create_beam_model_value,
      of "[''youngs modulus'' \<mapsto> 1, ''area'' \<mapsto> 2]" "''theta''" "''length''" "\<lambda>cs. []" 5]
  by (simp add: create_beam_model_value)

text \<open>
  C1 (the beam-deflection scenario). With the seven known values of
  \<^verbatim>\<open>beam_simulation.py\<close> and target theta, every depth bound of at least 1 resolves theta
  by the one direct relation Timoshenko: the value is
  \<open>(1000 * 2^3) / (3 * 200e9 * 1e-6) + (1000 * 2) / ((5/6) * 80e9 * 1e-4)\<close>, which is what
  \<^verbatim>\<open>timoshenko_beam_deflection\<close> returns on the seven arguments, and the trace has that one
  step.
\<close>

theorem beam_deflection_scenario:
  assumes "1 \<le> max_depth"
  shows "\<exists>hg. create_beam_model roots = Inr hg \<and>
     resolve hg (map_of simulation_inputs) ''theta'' max_depth =
       Resolved
         ((1000 * 2 ^ 3) / (3 * 200000000000 * (1 / 1000000)) +
          (1000 * 2) / ((5 / 6) * 80000000000 * (1 / 10000)))
         [\<lparr>step_relation = ''Timoshenko'',
           step_inputs =
             [(''point load'', 1000), (''youngs modulus'', 200000000000),
              (''moment of inertia'', 1 / 1000000), (''length'', 2), (''kappa'', 5 / 6),
              (''shear modulus'', 80000000000), (''area'', 1 / 10000)],
           step_output = (''theta'',
             (1000 * 2 ^ 3) / (3 * 200000000000 * (1 / 1000000)) +
             (1000 * 2) / ((5 / 6) * 80000000000 * (1 / 10000)))\<rparr>] \<and>
     timoshenko_beam_deflection 1000 200000000000 (1 / 1000000) 2 (5 / 6) 80000000000 (1 / 10000) =
       Inr ((1000 * 2 ^ 3) / (3 * 200000000000 * (1 / 1000000)) +
            (1000 * 2) / ((5 / 6) * 80000000000 * (1 / 10000)))"
proof -
  obtain d where d: "max_depth = Suc d" using assms by (cases max_depth) auto
  obtain hg where hg: "create_beam_model roots = Inr hg" 
    using create_beam_model_value by blast
  have rel: "relations_for hg ''theta'' =
      [\<lparr>edge_inputs = [''point load'', ''youngs modulus'', ''moment of inertia'', ''length'',
                        ''kappa'', ''shear modulus'', ''area''],
         edge_target = ''theta'', edge_rel = Fun7 timoshenko_beam_deflection,
         edge_label = ''Timoshenko''\<rparr>]"
    using hg unfolding create_beam_model_value by (auto simp: relations_for_def)
  have val: "timoshenko_beam_deflection 1000 200000000000 (1 / 1000000) 2 (5 / 6) 80000000000
        (1 / 10000) = Inr (409 / 30000)"
    by (simp add: timoshenko_beam_deflection_def and_then_def py_div_def)
  have "resolve hg (map_of simulation_inputs) ''theta'' (Suc d) =
       Resolved (409 / 30000)
         [\<lparr>step_relation = ''Timoshenko'',
           step_inputs =
             [(''point load'', 1000), (''youngs modulus'', 200000000000),
              (''moment of inertia'', 1 / 1000000), (''length'', 2), (''kappa'', 5 / 6),
              (''shear modulus'', 80000000000), (''area'', 1 / 10000)],
           step_output = (''theta'', 409 / 30000)\<rparr>]"
    by (subst resolve_single_relation[OF rel])
       (simp_all add: simulation_inputs_def val dom_map_of_conv_image_fst)
  with hg d val show ?thesis by simp
qed

theorem beam_deflection_scenario_witness:
  "run_beam_simulation (\<lambda>cs. []) =
     Inr (Resolved (409 / 30000)
         [\<lparr>step_relation = ''Timoshenko'',
           step_inputs =
             [(''point load'', 1000), (''youngs modulus'', 200000000000),
              (''moment of inertia'', 1 / 1000000), (''length'', 2), (''kappa'', 5 / 6),
              (''shear modulus'', 80000000000), (''area'', 1 / 10000)],
           step_output = (''theta'', 409 / 30000)\<rparr>])"
  using beam_deflection_scenario[of 1000 "\<lambda>cs. []"]
  by (auto simp: run_beam_simulation_def and_then_def)

section \<open>The inverse relations\<close>





text \<open>Each relation of the beam model is the only one for its target.\<close>

lemma beam_model_single_relation:
  assumes "create_beam_model roots = Inr hg"
  shows "\<forall>r\<in>set (edges hg). relations_for hg (edge_target r) = [r]"
proof -
  from assms create_beam_model_value[of roots] have "hg = projr (create_beam_model roots)"
    by simp
  then show ?thesis
    unfolding create_beam_model_value by (simp add: relations_for_def)
qed

lemma resolve_domain_error:
  assumes "relations_for hg t = [r]" and "knowns t = None"
    and "set (edge_inputs r) \<subseteq> dom knowns"
    and "isl (call (edge_rel r) (map (\<lambda>i. the (knowns i)) (edge_inputs r)))"
  shows "resolve hg knowns t (Suc d) = Failure (UnresolvedNodeError t)"
  using assms(4) unfolding resolve_single_relation[OF assms(1-3)]
  by (auto split: sum.splits)

text \<open>
  C5, as amended (the singular inputs of the inverse relations, in exact arithmetic).
  With every operation computed exactly over the reals, so that nothing rounds, underflows
  or overflows, each of the five relations raises \<^verbatim>\<open>ZeroDivisionError\<close> exactly on its
  singular inputs and returns its quotient elsewhere: \<^verbatim>\<open>solve_for_k\<close>, \<^verbatim>\<open>solve_for_G\<close> and
  \<^verbatim>\<open>solve_for_A\<close> are singular where \<open>E = 0\<close>, \<open>I = 0\<close>, one of the two shear factors they
  take is 0, or theta equals the bending term \<open>P L^3 / (3 E I)\<close>; \<^verbatim>\<open>solve_for_E\<close> and
  \<^verbatim>\<open>solve_for_I\<close> are singular where \<open>k\<close>, \<open>G\<close>, \<open>A\<close> or the stiffness factor they take is 0,
  or theta equals the shear term \<open>P L / (k G A)\<close>. In a resolution over the beam model with
  the target unknown and the inputs of its relation known, an error of the relation's
  function does not surface: the relation attempt fails, the target has no other
  relation, and the resolution ends with \<^verbatim>\<open>UnresolvedNodeError\<close> for the target.

  The statement does not extend to binary64: there a relation also raises
  \<^verbatim>\<open>ZeroDivisionError\<close> where a denominator underflows or cancels to \<^verbatim>\<open>0.0\<close> (for example
  \<open>E = I = 1e-200\<close>, or theta the double nearest to \<open>1/3\<close> with the other arguments 1), and
  raises \<^verbatim>\<open>OverflowError\<close> where \<^verbatim>\<open>L**3\<close> overflows (for example \<open>L = 1e200\<close>).
\<close>

theorem inverse_relations_singular:
  "solve_for_k_from_timoshenko theta P E I L G A =
     (if E = 0 \<or> I = 0 \<or> G = 0 \<or> A = 0 \<or> theta = P * L ^ 3 / (3 * E * I)
      then Inl ZeroDivisionError
      else Inr (P * L / (G * A * (theta - P * L ^ 3 / (3 * E * I))))) \<and>
   solve_for_G_from_timoshenko theta P E I L k A =
     (if E = 0 \<or> I = 0 \<or> k = 0 \<or> A = 0 \<or> theta = P * L ^ 3 / (3 * E * I)
      then Inl ZeroDivisionError
      else Inr (P * L / (k * A * (theta - P * L ^ 3 / (3 * E * I))))) \<and>
   solve_for_A_from_timoshenko theta P E I L k G =
     (if E = 0 \<or> I = 0 \<or> k = 0 \<or> G = 0 \<or> theta = P * L ^ 3 / (3 * E * I)
      then Inl ZeroDivisionError
      else Inr (P * L / (k * G * (theta - P * L ^ 3 / (3 * E * I))))) \<and>
   solve_for_E_from_timoshenko theta P I L k G A =
     (if k = 0 \<or> G = 0 \<or> A = 0 \<or> I = 0 \<or> theta = P * L / (k * G * A)
      then Inl ZeroDivisionError
      else Inr (P * L ^ 3 / (3 * I * (theta - P * L / (k * G * A))))) \<and>
   solve_for_I_from_timoshenko theta P E L k G A =
     (if k = 0 \<or> G = 0 \<or> A = 0 \<or> E = 0 \<or> theta = P * L / (k * G * A)
      then Inl ZeroDivisionError
      else Inr (P * L ^ 3 / (3 * E * (theta - P * L / (k * G * A))))) \<and>
   (\<exists>hg. create_beam_model roots = Inr hg \<and>
      (\<forall>r\<in>set (edges hg).
         knowns (edge_target r) = None \<and> set (edge_inputs r) \<subseteq> dom knowns \<and>
         isl (call (edge_rel r) (map (\<lambda>i. the (knowns i)) (edge_inputs r))) \<longrightarrow>
         resolve hg knowns (edge_target r) (Suc d) =
           Failure (UnresolvedNodeError (edge_target r))))"
proof -
  obtain hg where hg: "create_beam_model roots = Inr hg"
    using create_beam_model_value by blast
  have "\<forall>r\<in>set (edges hg).
         knowns (edge_target r) = None \<and> set (edge_inputs r) \<subseteq> dom knowns \<and>
         isl (call (edge_rel r) (map (\<lambda>i. the (knowns i)) (edge_inputs r))) \<longrightarrow>
         resolve hg knowns (edge_target r) (Suc d) =
           Failure (UnresolvedNodeError (edge_target r))"
    using beam_model_single_relation[OF hg] resolve_domain_error by blast
  with hg have "\<exists>hg. create_beam_model roots = Inr hg \<and>
      (\<forall>r\<in>set (edges hg).
         knowns (edge_target r) = None \<and> set (edge_inputs r) \<subseteq> dom knowns \<and>
         isl (call (edge_rel r) (map (\<lambda>i. the (knowns i)) (edge_inputs r))) \<longrightarrow>
         resolve hg knowns (edge_target r) (Suc d) =
           Failure (UnresolvedNodeError (edge_target r)))" by blast
  then show ?thesis
    by (simp add: solve_for_k_from_timoshenko_def solve_for_G_from_timoshenko_def
        solve_for_A_from_timoshenko_def solve_for_E_from_timoshenko_def
        solve_for_I_from_timoshenko_def and_then_def py_div_def)
qed

theorem inverse_relations_singular_witness:
  "solve_for_k_from_timoshenko (1 / 3) 1 1 1 1 1 1 = Inl ZeroDivisionError \<and>
   (\<exists>hg. create_beam_model (\<lambda>cs. []) = Inr hg \<and>
      resolve hg
        [''theta'' \<mapsto> 1 / 3, ''point load'' \<mapsto> 1, ''youngs modulus'' \<mapsto> 1,
         ''moment of inertia'' \<mapsto> 1, ''length'' \<mapsto> 1, ''shear modulus'' \<mapsto> 1, ''area'' \<mapsto> 1]
        ''kappa'' 1 = Failure (UnresolvedNodeError ''kappa''))"
  using inverse_relations_singular
    [of "1 / 3" 1 1 1 1 1 1 1 "\<lambda>cs. []"
        "[''theta'' \<mapsto> 1 / 3, ''point load'' \<mapsto> 1, ''youngs modulus'' \<mapsto> 1,
          ''moment of inertia'' \<mapsto> 1, ''length'' \<mapsto> 1, ''shear modulus'' \<mapsto> 1, ''area'' \<mapsto> 1]" 0]
  by (simp add: create_beam_model_value)

text \<open>
  C5, counterexample. At \<open>theta = P L / (k G A)\<close> (here \<open>P = 2\<close>, \<open>L = k = A = 1\<close>, \<open>G = 4\<close>,
  so theta is \<open>1 / 2\<close>) \<^verbatim>\<open>solve_for_G_from_timoshenko\<close> divides by no zero: it returns
  \<open>- 12\<close>. And with \<open>G = A = 1\<close> but \<open>E = 0\<close>, \<^verbatim>\<open>solve_for_k_from_timoshenko\<close> does divide
  by zero.
\<close>

theorem solve_for_G_regular_at_shear_term:
  "solve_for_G_from_timoshenko (2 * 1 / (1 * 4 * 1)) 2 1 1 1 1 1 = Inr (- 12) \<and>
   solve_for_k_from_timoshenko 1 1 0 1 1 1 1 = Inl ZeroDivisionError"
  by (simp add: solve_for_G_from_timoshenko_def solve_for_k_from_timoshenko_def
      and_then_def py_div_def)

section \<open>The round trip\<close>

text \<open>A cubic \<open>a x^3 + b x\<close> with positive \<open>a\<close> and \<open>b\<close> is injective on the positive reals.\<close>

lemma cubic_root_unique:
  fixes a b x y :: real
  assumes "0 < a" "0 < b" "0 < x" "0 < y"
    and "a * x ^ 3 + b * x = a * y ^ 3 + b * y"
  shows "x = y"
proof (rule ccontr)
  assume ne: "x \<noteq> y"
  have "(x - y) * (a * (x\<^sup>2 + x * y + y\<^sup>2) + b) = 0"
    using assms(5) by (simp add: algebra_simps power2_eq_square power3_eq_cube)
  moreover have "0 < a * (x\<^sup>2 + x * y + y\<^sup>2) + b"
    using assms(1-4) by (simp add: add_pos_pos)
  ultimately show False using ne by auto
qed

text \<open>
  C3, as amended (round trip in exact arithmetic). For positive \<open>P\<close>, \<open>E\<close>, \<open>I\<close>, \<open>L\<close>, \<open>k\<close>,
  \<open>G\<close>, \<open>A\<close> the forward relation returns a deflection theta, and from theta and the other
  six parameters each of the inverses for \<open>P\<close>, \<open>E\<close>, \<open>I\<close>, \<open>k\<close>, \<open>G\<close>, \<open>A\<close> returns its
  variable exactly, so within every relative tolerance. The inverse for \<open>L\<close> returns \<open>L\<close>
  when the array of the root finder contains \<open>L\<close> and each of its real positive entries is
  a root of the cubic.
\<close>

theorem timoshenko_round_trip:
  assumes "0 < P" "0 < E" "0 < I" "0 < L" "0 < k" "0 < G" "0 < A"
  shows "\<exists>theta. timoshenko_beam_deflection P E I L k G A = Inr theta \<and>
     solve_for_P_from_timoshenko theta E I L k G A = Inr P \<and>
     solve_for_E_from_timoshenko theta P I L k G A = Inr E \<and>
     solve_for_I_from_timoshenko theta P E L k G A = Inr I \<and>
     solve_for_k_from_timoshenko theta P E I L G A = Inr k \<and>
     solve_for_G_from_timoshenko theta P E I L k A = Inr G \<and>
     solve_for_A_from_timoshenko theta P E I L k G = Inr A \<and>
     (complex_of_real L \<in> set (roots [P / (3 * E * I), 0, P / (k * G * A), - theta]) \<and>
      (\<forall>z\<in>set (roots [P / (3 * E * I), 0, P / (k * G * A), - theta]).
          Im z = 0 \<and> 0 < Re z \<longrightarrow>
          P / (3 * E * I) * Re z ^ 3 + P / (k * G * A) * Re z - theta = 0) \<longrightarrow>
      solve_for_L_from_timoshenko roots theta P E I k G A = Inr L)"
proof -
  define theta where "theta = P * L ^ 3 / (3 * E * I) + P * L / (k * G * A)"
  have nz: "3 * E * I \<noteq> 0" "k * G * A \<noteq> 0" using assms by auto
  have fwd: "timoshenko_beam_deflection P E I L k G A = Inr theta"
    using nz by (simp add: timoshenko_beam_deflection_def and_then_def py_div_def theta_def)
  have b: "theta - P * L / (k * G * A) = P * L ^ 3 / (3 * E * I)"
    and s: "theta - P * L ^ 3 / (3 * E * I) = P * L / (k * G * A)"
    by (simp_all add: theta_def)
  have bpos: "0 < P * L ^ 3 / (3 * E * I)" and spos: "0 < P * L / (k * G * A)"
    using assms by simp_all
  have neb: "theta \<noteq> P * L / (k * G * A)" using b bpos by auto
  have nes: "theta \<noteq> P * L ^ 3 / (3 * E * I)" using s spos by auto
  have P: "solve_for_P_from_timoshenko theta E I L k G A = Inr P"
  proof -
    have d: "0 < L ^ 3 / (3 * E * I) + L / (k * G * A)"
      using assms by (simp add: add_pos_pos)
    have "theta = P * (L ^ 3 / (3 * E * I) + L / (k * G * A))"
      by (simp add: theta_def algebra_simps)
    then have "theta / (L ^ 3 / (3 * E * I) + L / (k * G * A)) = P"
      using d by simp
    then show ?thesis
      using nz d by (simp add: solve_for_P_from_timoshenko_def and_then_def py_div_def)
  qed
  have E: "solve_for_E_from_timoshenko theta P I L k G A = Inr E"
    using assms nz bpos
    by (simp add: solve_for_E_from_timoshenko_def and_then_def py_div_def b neb)
  have I: "solve_for_I_from_timoshenko theta P E L k G A = Inr I"
    using assms nz bpos
    by (simp add: solve_for_I_from_timoshenko_def and_then_def py_div_def b neb)
  have k: "solve_for_k_from_timoshenko theta P E I L G A = Inr k"
    using assms nz spos
    by (simp add: solve_for_k_from_timoshenko_def and_then_def py_div_def s nes)
  have G: "solve_for_G_from_timoshenko theta P E I L k A = Inr G"
    using assms nz spos
    by (simp add: solve_for_G_from_timoshenko_def and_then_def py_div_def s nes)
  have A: "solve_for_A_from_timoshenko theta P E I L k G = Inr A"
    using assms nz spos
    by (simp add: solve_for_A_from_timoshenko_def and_then_def py_div_def s nes)
  have L: "solve_for_L_from_timoshenko roots theta P E I k G A = Inr L"
    if mem: "complex_of_real L \<in> set (roots [P / (3 * E * I), 0, P / (k * G * A), - theta])"
      and sound: "\<forall>z\<in>set (roots [P / (3 * E * I), 0, P / (k * G * A), - theta]).
          Im z = 0 \<and> 0 < Re z \<longrightarrow>
          P / (3 * E * I) * Re z ^ 3 + P / (k * G * A) * Re z - theta = 0"
  proof -
    let ?rs = "roots [P / (3 * E * I), 0, P / (k * G * A), - theta]"
    let ?ok = "\<lambda>z. isreal z \<and> gt_zero z"
    have okL: "?ok (complex_of_real L)"
      using assms(4) by (simp add: isreal_def gt_zero_def)
    have ne: "filter ?ok ?rs \<noteq> []"
      using mem okL by (auto simp: filter_empty_conv)
    define z where "z = hd (filter ?ok ?rs)"
    from ne have "z \<in> set (filter ?ok ?rs)" unfolding z_def by (rule hd_in_set)
    then have zin: "z \<in> set ?rs" and zok: "Im z = 0" "0 < Re z"
      by (auto simp: isreal_def gt_zero_def)
    from sound zin zok
    have "P / (3 * E * I) * Re z ^ 3 + P / (k * G * A) * Re z = theta" by auto
    moreover have "P / (3 * E * I) * L ^ 3 + P / (k * G * A) * L = theta"
      by (simp add: theta_def)
    moreover have "0 < P / (3 * E * I)" "0 < P / (k * G * A)" using assms by simp_all
    ultimately have "Re z = L"
      using cubic_root_unique[of "P / (3 * E * I)" "P / (k * G * A)" "Re z" L] zok assms(4)
      by simp
    then show ?thesis
      using nz ne
      by (simp add: solve_for_L_from_timoshenko_def and_then_def py_div_def Let_def z_def)
  qed
  from fwd P E I k G A L show ?thesis by blast
qed

theorem timoshenko_round_trip_witness:
  "timoshenko_beam_deflection 3 1 1 1 3 1 1 = Inr 2 \<and>
   solve_for_P_from_timoshenko 2 1 1 1 3 1 1 = Inr 3 \<and>
   solve_for_E_from_timoshenko 2 3 1 1 3 1 1 = Inr 1 \<and>
   solve_for_I_from_timoshenko 2 3 1 1 3 1 1 = Inr 1 \<and>
   solve_for_k_from_timoshenko 2 3 1 1 1 1 1 = Inr 3 \<and>
   solve_for_G_from_timoshenko 2 3 1 1 1 3 1 = Inr 1 \<and>
   solve_for_A_from_timoshenko 2 3 1 1 1 3 1 = Inr 1 \<and>
   solve_for_L_from_timoshenko
     (\<lambda>cs. if cs = [1, 0, 1, - 2]
           then [Complex (- 1 / 2) (sqrt 7 / 2), 1, Complex (- 1 / 2) (- (sqrt 7 / 2))]
           else [])
     2 3 1 1 3 1 1 = Inr 1"
proof -
  have fwd: "timoshenko_beam_deflection 3 1 1 1 3 1 1 = Inr 2"
    by (simp add: timoshenko_beam_deflection_def and_then_def py_div_def)
  show ?thesis
    using timoshenko_round_trip[of 3 1 1 1 3 1 1
      "\<lambda>cs. if cs = [1, 0, 1, - 2]
           then [Complex (- 1 / 2) (sqrt 7 / 2), 1, Complex (- 1 / 2) (- (sqrt 7 / 2))]
           else []"]
    by (simp add: fwd one_complex.code)
qed

text \<open>The rounding of a number whose exponent is known.\<close>

lemma binary64_eval:
  assumes "2 powi e \<le> \<bar>x\<bar>" and "\<bar>x\<bar> < 2 powi (e + 1)"
  shows "binary64 x = of_int (round_half_even (x / 2 powi (e - 52))) * 2 powi (e - 52)"
proof -
  have pos: "0 < \<bar>x\<bar>" using assms(1) by (smt (verit) zero_less_power_int)
  have "of_int e \<le> log 2 \<bar>x\<bar>"
    using assms(1) pos by (simp add: le_log_iff powr_real_of_int')
  moreover have "log 2 \<bar>x\<bar> < of_int e + 1"
    using assms(2) pos powr_real_of_int'[of 2 "e + 1"] by (simp add: log_less_iff)
  ultimately have "\<lfloor>log 2 \<bar>x\<bar>\<rfloor> = e" by (rule floor_unique)
  moreover have "x \<noteq> 0" using pos by auto
  ultimately show ?thesis by (simp add: binary64_def Let_def)
qed

lemma round_half_even_int: "round_half_even (of_int n) = n"
  by (simp add: round_half_even_def)

lemma b64_1: "binary64 1 = 1"
  using binary64_eval[of 0 1] round_half_even_int[of "2 ^ 52"] by (simp add: power_int_minus)

lemma binary64_exact:
  assumes "2 powi e \<le> \<bar>x\<bar>" and "\<bar>x\<bar> < 2 powi (e + 1)"
    and "x / 2 powi (e - 52) = of_int n"
  shows "binary64 x = x"
proof -
  have "binary64 x = of_int n * 2 powi (e - 52)"
    using binary64_eval[OF assms(1,2)] by (simp add: assms(3) round_half_even_int)
  also have "\<dots> = x" using assms(3) by (simp add: field_simps)
  finally show ?thesis .
qed

lemma b64_3: "binary64 3 = 3"
  by (rule binary64_exact[where e = 1 and n = "3 * 2 ^ 51"]) (simp_all add: power_int_minus)

lemma b64_L3: "binary64 (1 / 2 ^ 120) = 1 / 2 ^ 120"
  by (rule binary64_exact[where e = "- 120" and n = "2 ^ 52"])
     (simp_all add: power_int_minus)

lemma b64_PL3: "binary64 (3 / 2 ^ 120) = 3 / 2 ^ 120"
  by (rule binary64_exact[where e = "- 119" and n = "3 * 2 ^ 51"])
     (simp_all add: power_int_minus)

lemma b64_PL: "binary64 (3 / 2 ^ 40) = 3 / 2 ^ 40"
  by (rule binary64_exact[where e = "- 39" and n = "3 * 2 ^ 51"])
     (simp_all add: power_int_minus)

lemma b64_sum: "binary64 (1 / 2 ^ 120 + 3 / 2 ^ 40) = 3 / 2 ^ 40"
proof -
  have fl: "\<lfloor>(1 / 2 ^ 120 + 3 / 2 ^ 40) / 2 powi (- 39 - 52) :: real\<rfloor> = 3 * 2 ^ 51"
    by (rule floor_unique) (simp_all add: power_int_minus field_simps)
  have "round_half_even ((1 / 2 ^ 120 + 3 / 2 ^ 40) / 2 powi (- 39 - 52)) = 3 * 2 ^ 51"
    unfolding round_half_even_def Let_def fl by (simp add: power_int_minus field_simps)
  then show ?thesis
    using binary64_eval[of "- 39" "1 / 2 ^ 120 + 3 / 2 ^ 40"]
    by (simp add: power_int_minus field_simps)
qed

lemma b64_0: "binary64 0 = 0"
  by (simp add: binary64_def)

lemma absorption_arith:
  "(1 / 2 ^ 40 :: real) ^ 3 = 1 / 2 ^ 120"
  "(3::real) * (1 / 2 ^ 120) = 3 / 2 ^ 120"
  "(3::real) * 1 = 3"
  "(1::real) * 1 = 1"
  "(3 / 2 ^ 120 :: real) / 3 = 1 / 2 ^ 120"
  "(3::real) * (1 / 2 ^ 40) = 3 / 2 ^ 40"
  "(3 / 2 ^ 40 :: real) / 1 = 3 / 2 ^ 40"
  "(3 / 2 ^ 40 :: real) - 3 / 2 ^ 40 = 0"
  "(3::real) * 0 = 0"
  "((3::real) = 0) = False"
  "((1::real) = 0) = False"
  by (simp_all add: power_divide)

text \<open>
  C3, counterexample. With binary64 rounding the round trip fails for the positive
  parameters \<open>P = 3\<close>, \<open>L = 2^-40\<close>, \<open>E = I = k = G = A = 1\<close>: the bending term \<open>2^-120\<close> is
  absorbed when it is added to the shear term \<open>3 * 2^-40\<close>, so theta is the shear term, and
  \<^verbatim>\<open>solve_for_E_from_timoshenko\<close> at that theta divides by zero instead of returning a value
  within \<open>1e-9\<close> of \<open>E\<close>.
\<close>

theorem round_trip_binary64_absorption:
  "timoshenko_beam_deflection_b64 3 1 1 (1 / 2 ^ 40) 1 1 1 = Inr (3 / 2 ^ 40) \<and>
   solve_for_E_from_timoshenko_b64 (3 / 2 ^ 40) 3 1 (1 / 2 ^ 40) 1 1 1 = Inl ZeroDivisionError"
  by (simp only: timoshenko_beam_deflection_b64_def solve_for_E_from_timoshenko_b64_def
      and_then_def div_b64_def absorption_arith
      b64_0 b64_1 b64_3 b64_L3 b64_PL3 b64_PL b64_sum
      if_True if_False sum.case simp_thms)

end
